theory Spec2Isabelle
  imports Main "HOL-Library.AList"
begin

section \<open>Strings: the functions of Go's \<open>strings\<close> and \<open>regexp\<close> that the generator calls\<close>

text \<open>
  A Go string is a sequence of bytes; \<^typ>\<open>string\<close> is a list of \<^typ>\<open>char\<close>.
  A run-time panic of the Go program is a value of type \<open>panic\<close>; a function that can
  panic returns \<open>panic + 'a\<close>, with \<open>Inl\<close> for the panic.
\<close>

datatype panic = IndexOutOfRange | NilDereference

text \<open>\<open>strings.HasPrefix(s, prefix)\<close>\<close>

fun HasPrefix :: "string \<Rightarrow> string \<Rightarrow> bool" where
  "HasPrefix s [] = True"
| "HasPrefix [] (p # ps) = False"
| "HasPrefix (c # cs) (p # ps) = (c = p \<and> HasPrefix cs ps)"

text \<open>\<open>strings.HasSuffix(s, suffix)\<close>\<close>

definition HasSuffix :: "string \<Rightarrow> string \<Rightarrow> bool" where
  "HasSuffix s suffix = HasPrefix (rev s) (rev suffix)"

text \<open>\<open>strings.Contains(s, substr)\<close>: \<open>substr\<close> starts at some offset of \<open>s\<close>.\<close>

fun Contains :: "string \<Rightarrow> string \<Rightarrow> bool" where
  "Contains [] substr = (substr = [])"
| "Contains (c # cs) substr = (HasPrefix (c # cs) substr \<or> Contains cs substr)"

text \<open>\<open>strings.TrimPrefix(s, prefix)\<close>: one leading copy of \<open>prefix\<close> is removed.\<close>

definition TrimPrefix :: "string \<Rightarrow> string \<Rightarrow> string" where
  "TrimPrefix s prefix = (if HasPrefix s prefix then drop (length prefix) s else s)"

text \<open>\<open>strings.Trim(s, cutset)\<close>: every leading and trailing byte of \<open>cutset\<close> is removed.\<close>

definition Trim :: "string \<Rightarrow> string \<Rightarrow> string" where
  "Trim s cutset =
     rev (dropWhile (\<lambda>c. c \<in> set cutset) (rev (dropWhile (\<lambda>c. c \<in> set cutset) s)))"

text \<open>
  \<open>strings.Split(s, sep)\<close> for a separator of one byte, the only way the generator calls
  it (\<open>sep\<close> is \<open>"]"\<close>): the pieces between the separators, one more than there are
  separators; \<open>cur\<close> is the piece being read.
\<close>

fun splitFrom :: "char \<Rightarrow> string \<Rightarrow> string \<Rightarrow> string list" where
  "splitFrom sep cur [] = [cur]"
| "splitFrom sep cur (c # cs) =
     (if c = sep then cur # splitFrom sep [] cs else splitFrom sep (cur @ [c]) cs)"

definition Split :: "string \<Rightarrow> char \<Rightarrow> string list" where
  "Split s sep = splitFrom sep [] s"

text \<open>
  The regular expression of \<open>getBetweenBrackets\<close> is \<open>\[([^\[\]]*)\]\<close>: an opening
  bracket, bytes that are not brackets, a closing bracket. \<open>FindAllString\<close> lists its
  matches from the left; the code reads only \<open>allMatches[0]\<close>, the leftmost match, which
  \<open>firstMatch\<close> returns (\<open>None\<close> when the list of matches is empty).
\<close>

definition isBracket :: "char \<Rightarrow> bool" where
  "isBracket c = (c = CHR ''['' \<or> c = CHR '']'')"

fun firstMatch :: "string \<Rightarrow> string option" where
  "firstMatch [] = None"
| "firstMatch (c # cs) =
     (if c = CHR ''[''
      then (case dropWhile (\<lambda>x. \<not> isBracket x) cs of
              [] \<Rightarrow> firstMatch cs
            | d # _ \<Rightarrow>
                if d = CHR '']''
                then Some (c # takeWhile (\<lambda>x. \<not> isBracket x) cs @ [d])
                else firstMatch cs)
      else firstMatch cs)"

section \<open>The field classifier\<close>

definition fieldIsAMap :: "string \<Rightarrow> bool" where
  "fieldIsAMap typeName = Contains typeName ''map[''"

definition fieldIsASlice :: "string \<Rightarrow> bool" where
  "fieldIsASlice typeName = Contains typeName ''[]''"

text \<open>\<open>allMatches[0]\<close> panics when the expression matches nowhere.\<close>

definition getBetweenBrackets :: "string \<Rightarrow> panic + string" where
  "getBetweenBrackets s =
     (case firstMatch s of
        None \<Rightarrow> Inl IndexOutOfRange
      | Some firstM \<Rightarrow> Inr (Trim (Trim firstM ''['') '']''))"

text \<open>
  The result is \<open>(nameNoStar, isSlice, isMap, mapKeyType)\<close>, in the order of the Go
  function's results. \<open>parts[1]\<close> panics when \<open>Split\<close> returned a single piece.
\<close>

definition parseFieldType :: "string \<Rightarrow> panic + (string \<times> bool \<times> bool \<times> string)" where
  "parseFieldType typeName =
     (if fieldIsASlice typeName then
        (let parts = Split typeName (CHR '']'') in
         if 1 < length parts
         then Inr (TrimPrefix (parts ! 1) ''*'', True, False, [])
         else Inl IndexOutOfRange)
      else if fieldIsAMap typeName then
        (let parts = Split typeName (CHR '']'') in
         if 1 < length parts
         then (case getBetweenBrackets typeName of
                 Inl p \<Rightarrow> Inl p
               | Inr mapKeyType \<Rightarrow> Inr (TrimPrefix (parts ! 1) ''*'', False, True, mapKeyType))
         else Inl IndexOutOfRange)
      else Inr (TrimPrefix typeName ''*'', False, False, []))"

section \<open>The parsed schema and the generated code\<close>

text \<open>
  \<open>parser.Struct\<close> and \<open>parser.NamedTypeValue\<close> are declared by the parser package;
  the generator reads the name of a struct, its fields in order, and the name and the
  type string of each field.
\<close>

record NamedTypeValue =
  Name :: string
  Type :: string

record Struct =
  Name :: string
  Vars :: "NamedTypeValue list"

record structState =
  Struct :: Struct
  Visited :: bool

record fieldState =
  TypeName :: string
  IsStructType :: bool
  IsMap :: bool
  MapKeyType :: string
  IsSlice :: bool

definition pbNativeFields :: "string set" where
  "pbNativeFields = {''state'', ''sizeCache'', ''unknownFields''}"

text \<open>
  The code that \<open>jen\<close> (the code-building library) is asked to produce. A
  \<open>*jen.Statement\<close> is a chain of tokens, a \<^typ>\<open>'a list\<close> here; a call such as
  \<open>jen.Make(a, b)\<close> takes a list of statements. \<open>JValues\<close> holds the entries of the
  \<open>jen.Dict\<close> it is given.
\<close>

datatype jen =
    JId string
  | JOp string
  | JDot string
  | JNil
  | JLit int
  | JQual string string
  | JLine
  | JRange
  | JTag "(string \<times> string) list"
  | JIf "jen list list"
  | JFor "jen list list"
  | JBlock "jen list list"
  | JReturn "jen list list"
  | JMake "jen list list"
  | JLen "jen list"
  | JAppend "jen list list"
  | JCall "jen list list"
  | JMap "jen list"
  | JIndex "jen list list"
  | JValues "(jen list \<times> jen list) list"

text \<open>
  The log of a run, in program order: the calls on \<open>g.srcFile\<close> and \<open>g.code\<close>
  (\<open>PackageComment\<close>, \<open>NewLine\<close>, \<open>appendStruct\<close>, \<open>appendFunction\<close> with its six
  arguments) and, for the claims about their timing, the writes of \<open>true\<close> to a
  \<open>Visited\<close> flag, each with the name of the entry and the value the flag had before.
\<close>

datatype event =
    PackageComment string
  | NewLine
  | AppendStruct string "jen list list"
  | AppendFunction string "jen list option" "jen list list" "jen list list" string "jen list list"
  | SetVisited string bool

record GenerateDTOFromProtoGo =
  serviceName :: string
  protoGoFileFullPath :: string
  pbPackagePath :: string
  dtoPackagePath :: string
  dtoFileFullPath :: string
  targetPBStructName :: string

text \<open>
  What the generator takes from outside the file: \<open>utils.JsonTag\<close>, which gives the key
  and the value of the tag of a field name, and the order in which Go's \<open>range\<close> yields
  the entries of the map \<open>fieldManifest\<close>, which the language leaves open
  (\<open>rangeFrom\<close> for the loop of \<open>genBindingFromPB\<close>, \<open>rangeTo\<close> for that of
  \<open>genBindingToPB\<close>).
\<close>

record extern =
  JsonTag :: "string \<Rightarrow> string \<times> string"
  rangeFrom :: "(string \<times> fieldState) list \<Rightarrow> (string \<times> fieldState) list"
  rangeTo :: "(string \<times> fieldState) list \<Rightarrow> (string \<times> fieldState) list"

record genState =
  pbStructManifest :: "string \<rightharpoonup> structState"
  log :: "event list"

text \<open>
  A run of the recursive generator either does not return (\<open>None\<close>: the recursion is
  cut after a number of nested calls given as first argument), panics, or returns.
\<close>

type_synonym 'a run = "(panic + 'a) option"

definition bindRun :: "'a run \<Rightarrow> ('a \<Rightarrow> 'b run) \<Rightarrow> 'b run" where
  "bindRun r f = (case r of None \<Rightarrow> None | Some (Inl p) \<Rightarrow> Some (Inl p) | Some (Inr a) \<Rightarrow> f a)"

section \<open>The binding synthesizer\<close>

definition nilGuard :: "string \<Rightarrow> jen list" where
  "nilGuard v = [JIf [[JId v, JId ''=='', JNil]], JBlock [[JReturn [[JNil]]]], JLine]"

text \<open>
  One round of the loop of \<open>genBindingFromPB\<close> over \<open>fieldManifest\<close>: the statements of
  the function body so far and the entries of \<open>assignmentsForFromPB\<close> so far, extended
  for the field \<open>fieldName\<close>.
\<close>

definition fromPBField ::
  "GenerateDTOFromProtoGo \<Rightarrow> string \<times> fieldState \<Rightarrow>
   jen list list \<times> (jen list \<times> jen list) list \<Rightarrow> jen list list \<times> (jen list \<times> jen list) list" where
  "fromPBField g entry acc =
     (case entry of (fieldName, fs) \<Rightarrow> case acc of (funcBody, assignments) \<Rightarrow>
      if \<not> IsStructType fs
      then (funcBody, assignments @ [([JId fieldName], [JId ''pb'', JDot fieldName])])
      else if IsMap fs
      then (funcBody @
              [[JId ''m'', JOp '':='',
                JMake [[JMap [JId (MapKeyType fs)], JId ''*'', JQual (dtoPackagePath g) (TypeName fs)],
                       [JLen [JId ''pb'', JDot fieldName]]]],
               [JFor [[JId ''k'', JOp '','', JId ''v'', JOp '':='', JRange,
                       JQual (pbPackagePath g) fieldName,
                       JBlock [[JId ''m'', JIndex [[JId ''k'']], JOp ''='',
                                JId (TypeName fs @ ''FromPB''), JCall [[JId ''v'']]]]]]]],
            assignments @ [([JId fieldName], [JId ''m''])])
      else if IsSlice fs
      then (funcBody @
              [[JId ''aSlice'', JOp '':='',
                JMake [[JIndex [], JId ''*'', JQual (dtoPackagePath g) (TypeName fs)],
                       [JLit 0],
                       [JLen [JId ''pb'', JDot fieldName]]]],
               [JFor [[JId ''_'', JOp '','', JId ''v'', JOp '':='', JRange,
                       JQual (pbPackagePath g) fieldName,
                       JBlock [[JId ''aSlice'', JOp ''='',
                                JAppend [[JId ''aSlice''],
                                         [JId (TypeName fs @ ''FromPB''), JCall [[JId ''v'']]]]]]]]]],
            assignments @ [([JId fieldName], [JId ''aSlice''])])
      else (funcBody,
            assignments @
              [([JId fieldName], [JId (TypeName fs @ ''FromPB''), JCall [[JId ''pb'', JDot fieldName]]])]))"

definition fromPBBody ::
  "GenerateDTOFromProtoGo \<Rightarrow> string \<Rightarrow> (string \<times> fieldState) list \<Rightarrow> jen list list" where
  "fromPBBody g currentPBStructName entries =
     (case foldl (\<lambda>acc entry. fromPBField g entry acc) ([nilGuard ''pb''], []) entries of
        (funcBody, assignments) \<Rightarrow>
          funcBody @
          [[JReturn [[JId ''&'', JQual (dtoPackagePath g) currentPBStructName, JValues assignments]]]])"

definition genBindingFromPB ::
  "extern \<Rightarrow> GenerateDTOFromProtoGo \<Rightarrow> string \<Rightarrow> (string \<times> fieldState) list \<Rightarrow>
   genState \<Rightarrow> genState" where
  "genBindingFromPB x g currentPBStructName fieldManifest st =
     st\<lparr>log := log st @
       [AppendFunction (currentPBStructName @ ''FromPB'') None
          [[JId ''pb'', JId ''*'', JQual (pbPackagePath g) currentPBStructName]]
          [[JId [], JId ''*'', JQual (dtoPackagePath g) currentPBStructName]]
          []
          (fromPBBody g currentPBStructName (rangeFrom x fieldManifest)),
        NewLine, NewLine]\<rparr>"

definition toPBField ::
  "GenerateDTOFromProtoGo \<Rightarrow> string \<times> fieldState \<Rightarrow>
   jen list list \<times> (jen list \<times> jen list) list \<Rightarrow> jen list list \<times> (jen list \<times> jen list) list" where
  "toPBField g entry acc =
     (case entry of (fieldName, fs) \<Rightarrow> case acc of (funcBody, assignments) \<Rightarrow>
      if \<not> IsStructType fs
      then (funcBody, assignments @ [([JId fieldName], [JId ''orig'', JDot fieldName])])
      else if IsMap fs
      then (funcBody @
              [[JId ''m'', JOp '':='',
                JMake [[JMap [JId (MapKeyType fs)], JId ''*'', JQual (pbPackagePath g) (TypeName fs)],
                       [JLen [JId ''orig'', JDot fieldName]]]],
               [JFor [[JId ''k'', JOp '','', JId ''v'', JOp '':='', JRange,
                       JId ''orig'', JDot fieldName,
                       JBlock [[JId ''m'', JIndex [[JId ''k'']], JOp ''='',
                                JId (TypeName fs @ ''ToPB''), JCall [[JId ''v'']]]]]]]],
            assignments @ [([JId fieldName], [JId ''m''])])
      else if IsSlice fs
      then (funcBody @
              [[JId ''aSlice'', JOp '':='',
                JMake [[JIndex [], JId ''*'', JQual (pbPackagePath g) (TypeName fs)],
                       [JLit 0],
                       [JLen [JId ''orig'', JDot fieldName]]]],
               [JFor [[JId ''_'', JOp '','', JId ''v'', JOp '':='', JRange,
                       JId ''orig'', JDot fieldName,
                       JBlock [[JId ''aSlice'', JOp ''='',
                                JAppend [[JId ''aSlice''],
                                         [JId (TypeName fs @ ''ToPB''), JCall [[JId ''v'']]]]]]]]]],
            assignments @ [([JId fieldName], [JId ''aSlice''])])
      else (funcBody,
            assignments @
              [([JId fieldName], [JId (TypeName fs @ ''ToPB''), JCall [[JId ''orig'', JDot fieldName]]])]))"

definition toPBBody ::
  "GenerateDTOFromProtoGo \<Rightarrow> string \<Rightarrow> (string \<times> fieldState) list \<Rightarrow> jen list list" where
  "toPBBody g currentPBStructName entries =
     (case foldl (\<lambda>acc entry. toPBField g entry acc) ([nilGuard ''orig''], []) entries of
        (funcBody, assignments) \<Rightarrow>
          funcBody @
          [[JReturn [[JId ''&'', JQual (pbPackagePath g) currentPBStructName, JValues assignments]]]])"

definition genBindingToPB ::
  "extern \<Rightarrow> GenerateDTOFromProtoGo \<Rightarrow> string \<Rightarrow> (string \<times> fieldState) list \<Rightarrow>
   genState \<Rightarrow> genState" where
  "genBindingToPB x g currentPBStructName fieldManifest st =
     st\<lparr>log := log st @
       [AppendFunction (currentPBStructName @ ''ToPB'') None
          [[JId ''orig'', JId ''*'', JQual (dtoPackagePath g) currentPBStructName]]
          [[JId [], JId ''*'', JQual (pbPackagePath g) currentPBStructName]]
          []
          (toPBBody g currentPBStructName (rangeTo x fieldManifest)),
        NewLine]\<rparr>"

section \<open>The recursive generator\<close>

definition appendStruct :: "string \<Rightarrow> jen list list \<Rightarrow> genState \<Rightarrow> genState" where
  "appendStruct name dtoFields st = st\<lparr>log := log st @ [AppendStruct name dtoFields]\<rparr>"

text \<open>
  \<open>pbStructManifest[name].Visited = true\<close>: the entry is a pointer, and the write
  panics when the map has no entry for \<open>name\<close>.
\<close>

definition setVisited :: "string \<Rightarrow> genState \<Rightarrow> genState run" where
  "setVisited name st =
     (case pbStructManifest st name of
        None \<Rightarrow> Some (Inl NilDereference)
      | Some ss \<Rightarrow>
          Some (Inr (st\<lparr>pbStructManifest := (pbStructManifest st)(name \<mapsto> ss\<lparr>Visited := True\<rparr>),
                        log := log st @ [SetVisited name (Visited ss)]\<rparr>)))"

text \<open>
  One round of the loop over \<open>currentPBStruct.Vars\<close>. The state of the round is the
  generator's state, \<open>fieldManifest\<close> (a Go map: an entry for a name that is already
  there replaces its value) and \<open>dtoFields\<close>; \<open>recurse\<close> is the recursive call.
\<close>

definition inspectField ::
  "(Struct \<Rightarrow> genState \<Rightarrow> genState run) \<Rightarrow> extern \<Rightarrow> NamedTypeValue \<Rightarrow>
   genState \<times> (string \<times> fieldState) list \<times> jen list list \<Rightarrow>
   (genState \<times> (string \<times> fieldState) list \<times> jen list list) run" where
  "inspectField recurse x field acc =
     (case acc of (st, fieldManifest, dtoFields) \<Rightarrow>
      if NamedTypeValue.Name field \<in> pbNativeFields then Some (Inr acc)
      else
        (let jsonTag = JsonTag x (NamedTypeValue.Name field);
             dtoFields' = dtoFields @
               [[JId (NamedTypeValue.Name field), JId (Type field), JTag [jsonTag]]]
         in (case parseFieldType (Type field) of
              Inl p \<Rightarrow> Some (Inl p)
            | Inr (fieldType, isSlice, isMap, mapKeyType) \<Rightarrow>
                (case pbStructManifest st fieldType of
                   None \<Rightarrow>
                     Some (Inr (st,
                       AList.update (NamedTypeValue.Name field)
                         \<lparr>TypeName = fieldType, IsStructType = False, IsMap = isMap,
                          MapKeyType = mapKeyType, IsSlice = isSlice\<rparr> fieldManifest,
                       dtoFields'))
                 | Some ss \<Rightarrow>
                     (let fieldManifest' =
                        AList.update (NamedTypeValue.Name field)
                          \<lparr>TypeName = fieldType, IsStructType = True, IsMap = isMap,
                           MapKeyType = mapKeyType, IsSlice = isSlice\<rparr> fieldManifest
                      in if \<not> Visited ss
                         then bindRun (recurse (Struct ss) st) (\<lambda>st1.
                              bindRun (setVisited fieldType st1) (\<lambda>st2.
                              Some (Inr (st2, fieldManifest', dtoFields'))))
                         else Some (Inr (st, fieldManifest', dtoFields')))))))"

fun inspectFields ::
  "(Struct \<Rightarrow> genState \<Rightarrow> genState run) \<Rightarrow> extern \<Rightarrow> NamedTypeValue list \<Rightarrow>
   genState \<times> (string \<times> fieldState) list \<times> jen list list \<Rightarrow>
   (genState \<times> (string \<times> fieldState) list \<times> jen list list) run" where
  "inspectFields recurse x [] acc = Some (Inr acc)"
| "inspectFields recurse x (field # rest) acc =
     bindRun (inspectField recurse x field acc) (inspectFields recurse x rest)"

text \<open>
  The end of \<open>genDTORecursive\<close>, after the loop: the DTO type is appended, the flag of
  the struct is set, and the two conversion functions are appended.
\<close>

definition emitDTO ::
  "extern \<Rightarrow> GenerateDTOFromProtoGo \<Rightarrow> Struct \<Rightarrow>
   genState \<times> (string \<times> fieldState) list \<times> jen list list \<Rightarrow> genState run" where
  "emitDTO x g currentPBStruct acc =
     (case acc of (st, fieldManifest, dtoFields) \<Rightarrow>
      bindRun (setVisited (Name currentPBStruct) (appendStruct (Name currentPBStruct) dtoFields st))
        (\<lambda>st1. Some (Inr
           (genBindingToPB x g (Name currentPBStruct) fieldManifest
             (genBindingFromPB x g (Name currentPBStruct) fieldManifest st1)))))"

text \<open>
  \<open>genDTORecursive\<close>; the first argument bounds the depth of the nested calls. Reading
  \<open>structState.Visited\<close> panics when the manifest has no entry for the name.
\<close>

primrec genDTORecursive ::
  "nat \<Rightarrow> extern \<Rightarrow> GenerateDTOFromProtoGo \<Rightarrow> Struct \<Rightarrow> genState \<Rightarrow> genState run" where
  "genDTORecursive 0 x g currentPBStruct st = None"
| "genDTORecursive (Suc depth) x g currentPBStruct st =
     (case pbStructManifest st (Name currentPBStruct) of
        None \<Rightarrow> Some (Inl NilDereference)
      | Some ss \<Rightarrow>
          if Visited ss then Some (Inr st)
          else bindRun
                 (inspectFields (genDTORecursive depth x g) x (Vars currentPBStruct) (st, [], []))
                 (emitDTO x g currentPBStruct))"

section \<open>Generate\<close>

text \<open>The manifest of all structs of the pb.go file: a later struct of a name replaces an earlier one.\<close>

definition newManifest :: "Struct list \<Rightarrow> (string \<rightharpoonup> structState)" where
  "newManifest structures =
     foldl (\<lambda>m pbStruct. m(Name pbStruct \<mapsto> \<lparr>Struct = pbStruct, Visited = False\<rparr>)) Map.empty structures"

text \<open>The loop of \<open>Generate\<close> over the structs, with its two ways to skip one.\<close>

fun generateStructs ::
  "nat \<Rightarrow> extern \<Rightarrow> GenerateDTOFromProtoGo \<Rightarrow> Struct list \<Rightarrow> genState \<Rightarrow> genState run" where
  "generateStructs depth x g [] st = Some (Inr st)"
| "generateStructs depth x g (pbStruct # rest) st =
     (if targetPBStructName g \<noteq> []
      then (if Name pbStruct \<noteq> targetPBStructName g
            then generateStructs depth x g rest st
            else bindRun (genDTORecursive depth x g pbStruct st) (generateStructs depth x g rest))
      else (if \<not> HasSuffix (Name pbStruct) ''Request'' \<and> \<not> HasSuffix (Name pbStruct) ''Response''
            then generateStructs depth x g rest st
            else bindRun (genDTORecursive depth x g pbStruct st) (generateStructs depth x g rest)))"

text \<open>
  What the file system and the parser answer to the calls of \<open>Generate\<close>: the error of
  \<open>CreateFolderStructure\<close>, the result of \<open>Exists\<close>, of \<open>ReadFile\<close>, of \<open>Parse\<close> on
  the text read (the structs of the file), and the error of \<open>WriteFile\<close>.
\<close>

datatype error =
    Failure string
  | ErrCheckingPbGo error
  | PbGoMissing
  | ErrReadingPbGo error
  | ErrParsingPbGo error

record world =
  CreateFolderStructure :: "error option"
  Exists :: "error + bool"
  ReadFile :: "error + string"
  Parse :: "string \<Rightarrow> error + Struct list"
  WriteFile :: "error option"

text \<open>
  The outcome of \<open>Generate\<close>: the error it returns and the text given to a
  \<open>WriteFile\<close> that succeeded, which is the content of \<open>g.srcFile\<close>: the calls on
  \<open>g.srcFile\<close> and \<open>g.code\<close> of the log, in order.
\<close>

record outcome =
  err :: "error option"
  dtoFile :: "event list option"

fun isCode :: "event \<Rightarrow> bool" where
  "isCode (SetVisited name b) = False"
| "isCode e = True"

definition Generate :: "nat \<Rightarrow> extern \<Rightarrow> GenerateDTOFromProtoGo \<Rightarrow> world \<Rightarrow> outcome run" where
  "Generate depth x g w =
     (case CreateFolderStructure w of
        Some e \<Rightarrow> Some (Inr \<lparr>err = Some e, dtoFile = None\<rparr>)
      | None \<Rightarrow>
     (case Exists w of
        Inl e \<Rightarrow> Some (Inr \<lparr>err = Some (ErrCheckingPbGo e), dtoFile = None\<rparr>)
      | Inr b \<Rightarrow>
     if \<not> b then Some (Inr \<lparr>err = Some PbGoMissing, dtoFile = None\<rparr>)
     else
     (case ReadFile w of
        Inl e \<Rightarrow> Some (Inr \<lparr>err = Some (ErrReadingPbGo e), dtoFile = None\<rparr>)
      | Inr pbGoSrc \<Rightarrow>
     (case Parse w pbGoSrc of
        Inl e \<Rightarrow> Some (Inr \<lparr>err = Some (ErrParsingPbGo e), dtoFile = None\<rparr>)
      | Inr structures \<Rightarrow>
          bindRun
            (generateStructs depth x g structures
               \<lparr>pbStructManifest = newManifest structures,
                log = [PackageComment ''THIS FILE IS AUTO GENERATED, DO NOT EDIT!!'', NewLine]\<rparr>)
            (\<lambda>st. Some (Inr
               (case WriteFile w of
                  Some e \<Rightarrow> \<lparr>err = Some e, dtoFile = None\<rparr>
                | None \<Rightarrow> \<lparr>err = None, dtoFile = Some (filter isCode (log st))\<rparr>)))))))"


section \<open>Example runs\<close>

text \<open>
  Concrete inputs for the closed theorems below: a tag function, the identity for the
  order of \<open>range\<close>, a generator for a service \<open>shop\<close>, and a world in which every
  call on the file system succeeds and the parser returns the given structs.
\<close>

definition exampleExtern :: extern where
  "exampleExtern = \<lparr>JsonTag = (\<lambda>name. (''json'', name)), rangeFrom = (\<lambda>m. m), rangeTo = (\<lambda>m. m)\<rparr>"

definition exampleGen :: "string \<Rightarrow> GenerateDTOFromProtoGo" where
  "exampleGen target =
     \<lparr>serviceName = ''shop'', protoGoFileFullPath = ''shop/pkg/grpc/pb/z_shop.pb.go'',
      pbPackagePath = ''shop/pkg/grpc/pb'', dtoPackagePath = ''shop/pkg/shop/dto'',
      dtoFileFullPath = ''shop/pkg/shop/dto/z_shop_dto.go'', targetPBStructName = target\<rparr>"

definition exampleWorld :: "Struct list \<Rightarrow> world" where
  "exampleWorld structures =
     \<lparr>CreateFolderStructure = None, Exists = Inr True, ReadFile = Inr ''package pb'',
      Parse = (\<lambda>src. Inr structures), WriteFile = None\<rparr>"

definition orderSchema :: "Struct list" where
  "orderSchema =
     [\<lparr>Name = ''Order'', Vars =
         [\<lparr>NamedTypeValue.Name = ''Items'', Type = ''[]*Item''\<rparr>,
          \<lparr>NamedTypeValue.Name = ''Notes'', Type = ''[]*Note''\<rparr>]\<rparr>,
      \<lparr>Name = ''Item'', Vars = []\<rparr>,
      \<lparr>Name = ''Note'', Vars = []\<rparr>]"

text \<open>The bodies of the functions of a given name that a file declares, in order.\<close>

fun bodiesOf :: "string \<Rightarrow> event list \<Rightarrow> jen list list list" where
  "bodiesOf name [] = []"
| "bodiesOf name (AppendFunction n stp params results oneResponse body # es) =
     (if n = name then body # bodiesOf name es else bodiesOf name es)"
| "bodiesOf name (e # es) = bodiesOf name es"

definition pingSchema :: "Struct list" where
  "pingSchema = [\<lparr>Name = ''Ping'', Vars = []\<rparr>]"

definition twicePingRequest :: "Struct list" where
  "twicePingRequest =
     [\<lparr>Name = ''PingRequest'', Vars = [\<lparr>NamedTypeValue.Name = ''Id'', Type = ''string''\<rparr>]\<rparr>,
      \<lparr>Name = ''PingRequest'', Vars = []\<rparr>]"


section \<open>Notions used to state the properties of a run\<close>












section \<open>Properties of the classifier\<close>

lemma HasPrefix_append: "HasPrefix s p \<Longrightarrow> \<exists>r. s = p @ r"
  by (induction s p rule: HasPrefix.induct) auto

lemma Contains_append: "Contains s sub \<Longrightarrow> \<exists>p r. s = p @ sub @ r"
proof (induction s)
  case Nil
  then show ?case by simp
next
  case (Cons c cs)
  from Cons.prems have "HasPrefix (c # cs) sub \<or> Contains cs sub" by simp
  then show ?case
  proof
    assume "HasPrefix (c # cs) sub"
    then obtain r where "c # cs = sub @ r" using HasPrefix_append by blast
    then have "c # cs = [] @ sub @ r" by simp
    then show ?thesis by blast
  next
    assume "Contains cs sub"
    then obtain p r where "cs = p @ sub @ r" using Cons.IH by blast
    then have "c # cs = (c # p) @ sub @ r" by simp
    then show ?thesis by blast
  qed
qed

lemma length_splitFrom: "length (splitFrom sep cur s) = Suc (count_list s sep)"
  by (induction s arbitrary: cur) auto

lemma length_Split: "length (Split s sep) = Suc (count_list s sep)"
  by (simp add: Split_def length_splitFrom)

lemma count_list_pos: "x \<in> set xs \<Longrightarrow> 0 < count_list xs x"
  by (induction xs) auto

lemma slice_has_two_parts:
  assumes "fieldIsASlice t"
  shows "1 < length (Split t (CHR '']''))"
proof -
  from assms obtain p r where "t = p @ ''[]'' @ r"
    unfolding fieldIsASlice_def using Contains_append by blast
  then have "CHR '']'' \<in> set t" by simp
  then show ?thesis using count_list_pos [of "CHR '']''" t] by (simp add: length_Split)
qed





text \<open>
  Claim C10. A type string that contains both the sequence marker \<open>[]\<close> and the
  associative marker \<open>map[\<close> is classified as a sequence: the sequence test comes first,
  so \<open>isSlice\<close> is true, \<open>isMap\<close> is false and the key type is empty; the name is the
  second piece of the string split at \<open>]\<close>, without a leading star.
\<close>

theorem parseFieldType_slice_precedes_map:
  assumes "fieldIsASlice typeName" and "fieldIsAMap typeName"
  shows "parseFieldType typeName =
           Inr (TrimPrefix (Split typeName (CHR '']'') ! 1) ''*'', True, False, [])"
  using assms(1) slice_has_two_parts [OF assms(1)] by (simp add: parseFieldType_def Let_def)

theorem parseFieldType_slice_precedes_map_witness:
  "fieldIsASlice ''[]map[string]*Tag'' \<and> fieldIsAMap ''[]map[string]*Tag''
   \<and> parseFieldType ''[]map[string]*Tag'' = Inr (''map[string'', True, False, [])"
proof -
  have s: "fieldIsASlice ''[]map[string]*Tag''" by (simp add: fieldIsASlice_def)
  have m: "fieldIsAMap ''[]map[string]*Tag''" by (simp add: fieldIsAMap_def)
  show ?thesis
    using s m parseFieldType_slice_precedes_map [OF s m]
    by (simp add: Split_def TrimPrefix_def)
qed

section \<open>Properties of the binding synthesizer\<close>

lemma fromPBField_extends:
  "\<exists>ys. fst (fromPBField g entry (funcBody, assignments)) = funcBody @ ys"
  by (cases entry) (simp add: fromPBField_def)

lemma toPBField_extends:
  "\<exists>ys. fst (toPBField g entry (funcBody, assignments)) = funcBody @ ys"
  by (cases entry) (simp add: toPBField_def)

lemma foldl_fromPBField_extends:
  "\<exists>ys. fst (foldl (\<lambda>acc entry. fromPBField g entry acc) (funcBody, assignments) entries)
         = funcBody @ ys"
proof (induction entries arbitrary: funcBody assignments)
  case Nil
  then show ?case by simp
next
  case (Cons e es)
  obtain b a where step: "fromPBField g e (funcBody, assignments) = (b, a)"
    by (cases "fromPBField g e (funcBody, assignments)")
  obtain ys where b: "b = funcBody @ ys"
    using fromPBField_extends [of g e funcBody assignments] step by auto
  obtain zs where "fst (foldl (\<lambda>acc entry. fromPBField g entry acc) (b, a) es) = b @ zs"
    using Cons.IH by blast
  then show ?case using step b by simp
qed

lemma foldl_toPBField_extends:
  "\<exists>ys. fst (foldl (\<lambda>acc entry. toPBField g entry acc) (funcBody, assignments) entries)
         = funcBody @ ys"
proof (induction entries arbitrary: funcBody assignments)
  case Nil
  then show ?case by simp
next
  case (Cons e es)
  obtain b a where step: "toPBField g e (funcBody, assignments) = (b, a)"
    by (cases "toPBField g e (funcBody, assignments)")
  obtain ys where b: "b = funcBody @ ys"
    using toPBField_extends [of g e funcBody assignments] step by auto
  obtain zs where "fst (foldl (\<lambda>acc entry. toPBField g entry acc) (b, a) es) = b @ zs"
    using Cons.IH by blast
  then show ?case using step b by simp
qed

lemma fromPBBody_guard: "\<exists>rest. fromPBBody g name entries = nilGuard ''pb'' # rest"
proof -
  obtain ys where
    "fst (foldl (\<lambda>acc entry. fromPBField g entry acc) ([nilGuard ''pb''], []) entries)
       = [nilGuard ''pb''] @ ys"
    using foldl_fromPBField_extends by blast
  then show ?thesis by (auto simp: fromPBBody_def split: prod.splits)
qed

lemma toPBBody_guard: "\<exists>rest. toPBBody g name entries = nilGuard ''orig'' # rest"
proof -
  obtain ys where
    "fst (foldl (\<lambda>acc entry. toPBField g entry acc) ([nilGuard ''orig''], []) entries)
       = [nilGuard ''orig''] @ ys"
    using foldl_toPBField_extends by blast
  then show ?thesis by (auto simp: toPBBody_def split: prod.splits)
qed

text \<open>
  Claim C7. Both conversion functions begin with a nil guard. The function that
  \<open>genBindingFromPB\<close> appends takes the single parameter \<open>pb\<close>, the one that
  \<open>genBindingToPB\<close> appends takes \<open>orig\<close>; the first statement of each body is
  \<open>if p == nil { return nil }\<close> on that parameter, before any statement for a field and
  before the \<open>return\<close> that builds the value, whatever the struct and its fields are.
\<close>

theorem conversion_functions_begin_with_nil_guard:
  "(\<exists>rest. log (genBindingFromPB x g name fieldManifest st) = log st @
      [AppendFunction (name @ ''FromPB'') None
         [[JId ''pb'', JId ''*'', JQual (pbPackagePath g) name]]
         [[JId [], JId ''*'', JQual (dtoPackagePath g) name]] []
         ([JIf [[JId ''pb'', JId ''=='', JNil]], JBlock [[JReturn [[JNil]]]], JLine] # rest),
       NewLine, NewLine])
   \<and> (\<exists>rest. log (genBindingToPB x g name fieldManifest st) = log st @
      [AppendFunction (name @ ''ToPB'') None
         [[JId ''orig'', JId ''*'', JQual (dtoPackagePath g) name]]
         [[JId [], JId ''*'', JQual (pbPackagePath g) name]] []
         ([JIf [[JId ''orig'', JId ''=='', JNil]], JBlock [[JReturn [[JNil]]]], JLine] # rest),
       NewLine])"
proof
  obtain r where "fromPBBody g name (rangeFrom x fieldManifest) = nilGuard ''pb'' # r"
    using fromPBBody_guard by blast
  then show "\<exists>rest. log (genBindingFromPB x g name fieldManifest st) = log st @
      [AppendFunction (name @ ''FromPB'') None
         [[JId ''pb'', JId ''*'', JQual (pbPackagePath g) name]]
         [[JId [], JId ''*'', JQual (dtoPackagePath g) name]] []
         ([JIf [[JId ''pb'', JId ''=='', JNil]], JBlock [[JReturn [[JNil]]]], JLine] # rest),
       NewLine, NewLine]"
    by (simp add: genBindingFromPB_def nilGuard_def)
next
  obtain r where "toPBBody g name (rangeTo x fieldManifest) = nilGuard ''orig'' # r"
    using toPBBody_guard by blast
  then show "\<exists>rest. log (genBindingToPB x g name fieldManifest st) = log st @
      [AppendFunction (name @ ''ToPB'') None
         [[JId ''orig'', JId ''*'', JQual (dtoPackagePath g) name]]
         [[JId [], JId ''*'', JQual (pbPackagePath g) name]] []
         ([JIf [[JId ''orig'', JId ''=='', JNil]], JBlock [[JReturn [[JNil]]]], JLine] # rest),
       NewLine]"
    by (simp add: genBindingToPB_def nilGuard_def)
qed

section \<open>Properties of Generate\<close>

lemma generateStructs_no_target:
  assumes "targetPBStructName g \<noteq> []"
    and "\<forall>s\<in>set structures. Name s \<noteq> targetPBStructName g"
  shows "generateStructs depth x g structures st = Some (Inr st)"
  using assms by (induction structures) auto

text \<open>
  Claim C1, as stated, fails: a target struct name is requested, no struct of the schema
  has it, and \<open>Generate\<close> returns no error and writes the file, with the header only.
\<close>

theorem Generate_absent_target_counterexample:
  "targetPBStructName (exampleGen ''Missing'') \<noteq> []
   \<and> targetPBStructName (exampleGen ''Missing'') \<notin> set (map Name pingSchema)
   \<and> Generate 1 exampleExtern (exampleGen ''Missing'') (exampleWorld pingSchema) =
       Some (Inr \<lparr>err = None,
                  dtoFile = Some [PackageComment ''THIS FILE IS AUTO GENERATED, DO NOT EDIT!!'',
                                  NewLine]\<rparr>)"
  by (simp add: Generate_def exampleGen_def exampleWorld_def pingSchema_def bindRun_def)

text \<open>
  Claim C1, amended. When a target struct name is requested and no struct of the parsed
  schema has that name, \<open>Generate\<close> skips every struct and generates nothing; it still
  calls \<open>WriteFile\<close> and returns what that call returns: when the write succeeds
  there is no error, and the file written holds the header only.
\<close>

theorem Generate_absent_target_writes_header:
  assumes "targetPBStructName g \<noteq> []"
    and "\<forall>s\<in>set structures. Name s \<noteq> targetPBStructName g"
    and "CreateFolderStructure w = None" and "Exists w = Inr True"
    and "ReadFile w = Inr pbGoSrc" and "Parse w pbGoSrc = Inr structures"
  shows "Generate depth x g w =
           Some (Inr (case WriteFile w of
                        Some e \<Rightarrow> \<lparr>err = Some e, dtoFile = None\<rparr>
                      | None \<Rightarrow>
                          \<lparr>err = None,
                           dtoFile = Some [PackageComment ''THIS FILE IS AUTO GENERATED, DO NOT EDIT!!'',
                                           NewLine]\<rparr>))"
  using assms(3-6) generateStructs_no_target [OF assms(1,2)]
  by (simp add: Generate_def bindRun_def split: option.splits)

theorem Generate_absent_target_writes_header_witness:
  "Generate 0 exampleExtern (exampleGen ''Missing'') (exampleWorld pingSchema) =
     Some (Inr \<lparr>err = None,
                dtoFile = Some [PackageComment ''THIS FILE IS AUTO GENERATED, DO NOT EDIT!!'',
                                NewLine]\<rparr>)"
proof -
  have 1: "targetPBStructName (exampleGen ''Missing'') \<noteq> []" by (simp add: exampleGen_def)
  have 2: "\<forall>s\<in>set pingSchema. Name s \<noteq> targetPBStructName (exampleGen ''Missing'')"
    by (simp add: exampleGen_def pingSchema_def)
  have 3: "CreateFolderStructure (exampleWorld pingSchema) = None" by (simp add: exampleWorld_def)
  have 4: "Exists (exampleWorld pingSchema) = Inr True" by (simp add: exampleWorld_def)
  have 5: "ReadFile (exampleWorld pingSchema) = Inr ''package pb''" by (simp add: exampleWorld_def)
  have 6: "Parse (exampleWorld pingSchema) ''package pb'' = Inr pingSchema"
    by (simp add: exampleWorld_def)
  have 7: "WriteFile (exampleWorld pingSchema) = None" by (simp add: exampleWorld_def)
  show ?thesis
    using Generate_absent_target_writes_header [OF 1 2 3 4 5 6, of 0 exampleExtern] 7 by simp
qed

lemma newManifest_snoc:
  "newManifest (structures @ [s]) = (newManifest structures)(Name s \<mapsto> \<lparr>Struct = s, Visited = False\<rparr>)"
  by (simp add: newManifest_def)

lemma newManifest_lookup:
  "newManifest structures name =
     (if filter (\<lambda>s. Name s = name) structures = [] then None
      else Some \<lparr>Struct = last (filter (\<lambda>s. Name s = name) structures), Visited = False\<rparr>)"
proof (induction structures rule: rev_induct)
  case Nil
  then show ?case by (simp add: newManifest_def)
next
  case (snoc s structures)
  then show ?case by (simp add: newManifest_snoc)
qed

lemma Generate_returns_write_error:
  assumes "CreateFolderStructure w = None" and "Exists w = Inr True"
    and "ReadFile w = Inr pbGoSrc" and "Parse w pbGoSrc = Inr structures"
    and "Generate depth x g w = Some (Inr out)"
  shows "err out = WriteFile w"
  using assms
  by (auto simp: Generate_def bindRun_def split: option.splits sum.splits)

text \<open>
  Claim C5, as stated, fails: the schema defines \<open>PingRequest\<close> twice, and \<open>Generate\<close>
  returns no error and writes a file with a DTO for \<open>PingRequest\<close>.
\<close>

theorem Generate_duplicate_names_counterexample:
  "\<not> distinct (map Name twicePingRequest)
   \<and> (case Generate 1 exampleExtern (exampleGen []) (exampleWorld twicePingRequest) of
         Some (Inr out) \<Rightarrow>
           err out = None \<and>
           map_option (filter (\<lambda>e. case e of AppendStruct n fs \<Rightarrow> True | _ \<Rightarrow> False)) (dtoFile out) =
             Some [AppendStruct ''PingRequest''
                     [[JId ''Id'', JId ''string'', JTag [(''json'', ''Id'')]]]]
       | _ \<Rightarrow> False)"
  by code_simp

text \<open>
  Claim C5, amended. For a schema that defines two structs of the same name, building
  the manifest is not an error: the manifest has one entry for the name, which holds the
  last definition of that name, not visited; generation goes on, and whenever
  \<open>Generate\<close> returns, the error it returns is that of \<open>WriteFile\<close>.
\<close>

theorem newManifest_keeps_last_definition:
  assumes "i < j" and "j < length structures"
    and "Name (structures ! i) = Name (structures ! j)"
    and "CreateFolderStructure w = None" and "Exists w = Inr True"
    and "ReadFile w = Inr pbGoSrc" and "Parse w pbGoSrc = Inr structures"
  shows "newManifest structures (Name (structures ! i)) =
           Some \<lparr>Struct = last (filter (\<lambda>s. Name s = Name (structures ! i)) structures),
                 Visited = False\<rparr>
         \<and> (\<forall>out. Generate depth x g w = Some (Inr out) \<longrightarrow> err out = WriteFile w)"
proof
  have "structures ! i \<in> set structures" using assms(1,2) by simp
  then have "filter (\<lambda>s. Name s = Name (structures ! i)) structures \<noteq> []"
    by (auto simp: filter_empty_conv)
  then show "newManifest structures (Name (structures ! i)) =
           Some \<lparr>Struct = last (filter (\<lambda>s. Name s = Name (structures ! i)) structures),
                 Visited = False\<rparr>"
    by (simp add: newManifest_lookup)
next
  show "\<forall>out. Generate depth x g w = Some (Inr out) \<longrightarrow> err out = WriteFile w"
    using Generate_returns_write_error [OF assms(4-7)] by blast
qed

theorem newManifest_keeps_last_definition_witness:
  "newManifest twicePingRequest ''PingRequest'' =
     Some \<lparr>Struct = \<lparr>Name = ''PingRequest'', Vars = []\<rparr>, Visited = False\<rparr>
   \<and> (case Generate 1 exampleExtern (exampleGen []) (exampleWorld twicePingRequest) of
         Some (Inr out) \<Rightarrow> err out = None
       | _ \<Rightarrow> False)"
proof -
  have 1: "(0::nat) < 1" by simp
  have 2: "1 < length twicePingRequest" by (simp add: twicePingRequest_def)
  have 3: "Name (twicePingRequest ! 0) = Name (twicePingRequest ! 1)"
    by (simp add: twicePingRequest_def)
  have 4: "CreateFolderStructure (exampleWorld twicePingRequest) = None"
    by (simp add: exampleWorld_def)
  have 5: "Exists (exampleWorld twicePingRequest) = Inr True" by (simp add: exampleWorld_def)
  have 6: "ReadFile (exampleWorld twicePingRequest) = Inr ''package pb''"
    by (simp add: exampleWorld_def)
  have 7: "Parse (exampleWorld twicePingRequest) ''package pb'' = Inr twicePingRequest"
    by (simp add: exampleWorld_def)
  have 8: "WriteFile (exampleWorld twicePingRequest) = None" by (simp add: exampleWorld_def)
  have 9: "Name (twicePingRequest ! 0) = ''PingRequest''" by (simp add: twicePingRequest_def)
  have 10: "last (filter (\<lambda>s. Name s = ''PingRequest'') twicePingRequest) =
              \<lparr>Name = ''PingRequest'', Vars = []\<rparr>"
    by (simp add: twicePingRequest_def)
  have "case Generate 1 exampleExtern (exampleGen []) (exampleWorld twicePingRequest) of
          Some (Inr out) \<Rightarrow> True | _ \<Rightarrow> False"
    by code_simp
  then obtain out where
    11: "Generate 1 exampleExtern (exampleGen []) (exampleWorld twicePingRequest) = Some (Inr out)"
    by (auto split: option.splits sum.splits)
  show ?thesis
    using newManifest_keeps_last_definition [OF 1 2 3 4 5 6 7, of 1 exampleExtern "exampleGen []"] 11
    by (simp add: 8 9 10)
qed

text \<open>
  Claim C8 at a struct with two sequence-of-struct fields, \<open>Order{Items []*Item; Notes
  []*Note}\<close>: the body of \<open>OrderFromPB\<close> declares the variable \<open>aSlice\<close> twice with
  \<open>:=\<close>, once per field, and the struct literal assigns that one variable to both
  \<open>Items\<close> and \<open>Notes\<close>.
\<close>

theorem two_slice_fields_share_aSlice:
  "(case Generate 2 exampleExtern (exampleGen ''Order'') (exampleWorld orderSchema) of
      Some (Inr out) \<Rightarrow> map_option (bodiesOf ''OrderFromPB'') (dtoFile out)
    | _ \<Rightarrow> None) =
   Some
    [[[JIf [[JId ''pb'', JId ''=='', JNil]], JBlock [[JReturn [[JNil]]]], JLine],
      [JId ''aSlice'', JOp '':='',
       JMake [[JIndex [], JId ''*'', JQual ''shop/pkg/shop/dto'' ''Item''], [JLit 0],
              [JLen [JId ''pb'', JDot ''Items'']]]],
      [JFor [[JId ''_'', JOp '','', JId ''v'', JOp '':='', JRange, JQual ''shop/pkg/grpc/pb'' ''Items'',
              JBlock [[JId ''aSlice'', JOp ''='',
                       JAppend [[JId ''aSlice''], [JId ''ItemFromPB'', JCall [[JId ''v'']]]]]]]]],
      [JId ''aSlice'', JOp '':='',
       JMake [[JIndex [], JId ''*'', JQual ''shop/pkg/shop/dto'' ''Note''], [JLit 0],
              [JLen [JId ''pb'', JDot ''Notes'']]]],
      [JFor [[JId ''_'', JOp '','', JId ''v'', JOp '':='', JRange, JQual ''shop/pkg/grpc/pb'' ''Notes'',
              JBlock [[JId ''aSlice'', JOp ''='',
                       JAppend [[JId ''aSlice''], [JId ''NoteFromPB'', JCall [[JId ''v'']]]]]]]]],
      [JReturn [[JId ''&'', JQual ''shop/pkg/shop/dto'' ''Order'',
                 JValues [([JId ''Items''], [JId ''aSlice'']),
                          ([JId ''Notes''], [JId ''aSlice''])]]]]]]"
  by code_simp

section \<open>A malformed associative type in a run\<close>








section \<open>Properties of the recursive generator\<close>


































end
